theory Spec2Isabelle
  imports Complex_Main
begin

section \<open>Data model\<close>

text \<open>
  The records follow \<^verbatim>\<open>app/types/interfaces.ts\<close>. Field names carry a prefix where the
  TypeScript name (\<^verbatim>\<open>id\<close>, \<^verbatim>\<open>name\<close>, \<^verbatim>\<open>time\<close>) is taken in HOL. Identifiers are natural
  numbers. Finite JavaScript numbers are idealised as reals (no rounding); the special
  values that decide a branch of the animation loop are kept, see \<open>jsnum\<close> below.
\<close>

record CarInformation =
  car_name :: string
  car_color :: string

record CarDataFromApi = CarInformation +
  car_id :: nat

record WinnerResponse =
  wins :: int
  time :: real

record WinnerInformationFromApi = WinnerResponse +
  winner_id :: nat

record Engine =
  velocity :: real
  distance :: real

text \<open>Every \<^verbatim>\<open>throw new Error(...)\<close> of the modelled code, and the two rejections of the
  platform (\<^verbatim>\<open>fetch\<close> rejecting, \<^verbatim>\<open>response.json()\<close> rejecting), as values.\<close>

datatype error =
    FetchRejected
  | JsonRejected
  | DeleteCarFailed nat
  | DeleteFromWinnersFailed nat
  | StartEngineFailed nat
  | InvalidFormat nat
  | CreateWinnerFailed
  | UpdateWinnerFailed
  | NoCarsOnPage
  | CarInstanceMissing nat
  | PrepareFailed nat
  | WinnerCarDataNotFound nat
  | ProcessWinnerFailed

subsection \<open>JavaScript numbers with their special values\<close>

text \<open>
  \<^verbatim>\<open>timeElapsed / duration\<close> is an IEEE division: it never throws, \<^verbatim>\<open>0 / 0\<close> is
  \<^verbatim>\<open>NaN\<close>, a non-zero value over zero is an infinity, and every comparison with \<^verbatim>\<open>NaN\<close>
  is false. Signed zeros are identified (a zero divisor counts as \<^verbatim>\<open>+0\<close>).
\<close>

datatype jsnum = Fin real | PosInf | NegInf | NaN

fun js_div :: "jsnum \<Rightarrow> jsnum \<Rightarrow> jsnum" where
  "js_div NaN _ = NaN"
| "js_div _ NaN = NaN"
| "js_div (Fin a) (Fin b) =
     (if b = 0 then (if a = 0 then NaN else if 0 < a then PosInf else NegInf)
      else Fin (a / b))"
| "js_div (Fin a) PosInf = Fin 0"
| "js_div (Fin a) NegInf = Fin 0"
| "js_div PosInf (Fin b) = (if b < 0 then NegInf else PosInf)"
| "js_div NegInf (Fin b) = (if b < 0 then PosInf else NegInf)"
| "js_div PosInf PosInf = NaN"
| "js_div PosInf NegInf = NaN"
| "js_div NegInf PosInf = NaN"
| "js_div NegInf NegInf = NaN"

fun js_mul :: "jsnum \<Rightarrow> jsnum \<Rightarrow> jsnum" where
  "js_mul NaN _ = NaN"
| "js_mul _ NaN = NaN"
| "js_mul (Fin a) (Fin b) = Fin (a * b)"
| "js_mul (Fin a) PosInf = (if a = 0 then NaN else if 0 < a then PosInf else NegInf)"
| "js_mul (Fin a) NegInf = (if a = 0 then NaN else if 0 < a then NegInf else PosInf)"
| "js_mul PosInf (Fin b) = (if b = 0 then NaN else if 0 < b then PosInf else NegInf)"
| "js_mul NegInf (Fin b) = (if b = 0 then NaN else if 0 < b then NegInf else PosInf)"
| "js_mul PosInf PosInf = PosInf"
| "js_mul PosInf NegInf = NegInf"
| "js_mul NegInf PosInf = NegInf"
| "js_mul NegInf NegInf = PosInf"

text \<open>The relational operators \<^verbatim>\<open><\<close> and \<^verbatim>\<open>>=\<close>: false as soon as an operand is \<^verbatim>\<open>NaN\<close>.\<close>

fun js_lt :: "jsnum \<Rightarrow> jsnum \<Rightarrow> bool" where
  "js_lt NaN _ = False"
| "js_lt _ NaN = False"
| "js_lt (Fin a) (Fin b) = (a < b)"
| "js_lt (Fin a) PosInf = True"
| "js_lt (Fin a) NegInf = False"
| "js_lt PosInf _ = False"
| "js_lt NegInf (Fin b) = True"
| "js_lt NegInf PosInf = True"
| "js_lt NegInf NegInf = False"

fun js_ge :: "jsnum \<Rightarrow> jsnum \<Rightarrow> bool" where
  "js_ge NaN _ = False"
| "js_ge _ NaN = False"
| "js_ge a b = (\<not> js_lt a b)"

text \<open>\<^verbatim>\<open>Number(x.toFixed(2))\<close> for a finite \<open>x\<close>: the nearest multiple of 0.01, the larger one
  on a tie, the sign handled apart.\<close>

definition toFixed2 :: "real \<Rightarrow> real" where
  "toFixed2 x =
     (if x < 0 then - (of_int \<lfloor>(- x) * 100 + 1 / 2\<rfloor> / 100)
      else of_int \<lfloor>x * 100 + 1 / 2\<rfloor> / 100)"

section \<open>The Garage page and the browser's frame scheduler\<close>

text \<open>
  \<^verbatim>\<open>CarAnimationOptions\<close>. The SVG element \<^verbatim>\<open>car\<close> is identified with the car id it was
  rendered for. \<^verbatim>\<open>onFinish\<close> is optional; the only function ever passed is
  \<^verbatim>\<open>handleCarFinish\<close>.
\<close>

datatype finish_handler = HandleCarFinish

record CarAnimationOptions =
  carId :: nat
  duration :: jsnum
  distanceX :: real
  onFinish :: "finish_handler option"

text \<open>The closure \<^verbatim>\<open>step\<close> that \<^verbatim>\<open>animationCar\<close> creates: the captured options and the
  captured variable \<^verbatim>\<open>startTime\<close>, unset until the first frame.\<close>

record step_closure = CarAnimationOptions +
  startTime :: "real option"

text \<open>A rendered \<^verbatim>\<open>Car\<close>: what \<^verbatim>\<open>calculateAnimationDetails\<close> reads from it, the right edge of
  the flag's rectangle and the left edge of the car's.\<close>

record Car =
  flagRight :: real
  carLeft :: real

text \<open>Promises started with \<^verbatim>\<open>void\<close> and never awaited by their caller.\<close>

datatype task = SendOrUpdateWinnerData nat real | CheckDriveStatus nat

text \<open>
  The fields of \<^verbatim>\<open>class Garage\<close> that the race logic reads or writes, followed by the
  state of the page it acts on: the browser's animation frame callback identifier and its
  list of pending callbacks, the positions assigned to \<^verbatim>\<open>car.style.transform\<close> (latest
  last), the winner message (\<open>None\<close> when hidden) and the promises spawned.
  \<^verbatim>\<open>carInstances\<close> is a \<^verbatim>\<open>Map\<close> iterated in insertion order, hence a list of entries;
  \<^verbatim>\<open>activeAnimations\<close> is only ever looked up by key.
\<close>

record Garage =
  cars :: "CarDataFromApi list"
  carInstances :: "(nat \<times> Car) list"
  activeAnimations :: "nat \<rightharpoonup> nat"
  currentWinnerId :: "nat option"
  winnerData :: "(CarDataFromApi \<times> real) option"
  message :: "(string \<times> real) option"
  frameHandle :: nat
  frameCallbacks :: "(nat \<times> step_closure) list"
  transformWrites :: "(nat \<times> jsnum) list"
  spawned :: "task list"

subsection \<open>requestAnimationFrame and cancelAnimationFrame\<close>

text \<open>The identifier is incremented and returned, so a handle is never 0 and never reused;
  cancelling removes the callback with that handle, if any.\<close>

definition requestAnimationFrame :: "Garage \<Rightarrow> step_closure \<Rightarrow> nat \<times> Garage" where
  "requestAnimationFrame g cl =
     (let h = Suc (frameHandle g)
      in (h, g\<lparr>frameHandle := h, frameCallbacks := frameCallbacks g @ [(h, cl)]\<rparr>))"

definition cancelAnimationFrame :: "Garage \<Rightarrow> nat \<Rightarrow> Garage" where
  "cancelAnimationFrame g h =
     g\<lparr>frameCallbacks := filter (\<lambda>e. fst e \<noteq> h) (frameCallbacks g)\<rparr>"

subsection \<open>Winner state and message\<close>

definition showMessage :: "Garage \<Rightarrow> string \<times> real \<Rightarrow> Garage" where
  "showMessage g m = g\<lparr>message := Some m\<rparr>"

definition hideMessage :: "Garage \<Rightarrow> Garage" where
  "hideMessage g = g\<lparr>message := None\<rparr>"

definition resetWinnerData :: "Garage \<Rightarrow> Garage" where
  "resetWinnerData g = g\<lparr>currentWinnerId := None, winnerData := None\<rparr>"

subsection \<open>handleCarFinish\<close>

text \<open>A thrown error leaves the assignments made before it in place, so the result is the
  outcome together with the state.\<close>

definition handleCarFinish :: "Garage \<Rightarrow> nat \<Rightarrow> real \<Rightarrow> (error + unit) \<times> Garage" where
  "handleCarFinish g cid timeElapsed =
     (if currentWinnerId g \<noteq> None then (Inr (), g)
      else
        let g1 = g\<lparr>currentWinnerId := Some cid\<rparr> in
        (case find (\<lambda>car. car_id car = cid) (cars g1) of
           None \<Rightarrow> (Inl (WinnerCarDataNotFound cid), g1)
         | Some winnerCarData \<Rightarrow>
             let timeSec = toFixed2 (timeElapsed / 1000);
                 g2 = g1\<lparr>winnerData := Some (winnerCarData, timeSec)\<rparr>;
                 g3 = showMessage g2 (car_name winnerCarData, timeSec)
             in (Inr (), g3\<lparr>spawned := spawned g3 @ [SendOrUpdateWinnerData cid timeSec]\<rparr>)))"


subsection \<open>Stopping an animation\<close>

text \<open>\<^verbatim>\<open>stopExistingAnimation\<close> cancels the frame recorded for the car and then calls
  \<^verbatim>\<open>this.activeAnimations.delete(existingAnimationID)\<close>: the key it deletes is the frame
  handle. \<^verbatim>\<open>cleanupAnimation\<close> deletes the key \<^verbatim>\<open>carId\<close>.\<close>

definition stopExistingAnimation :: "Garage \<Rightarrow> nat \<Rightarrow> Garage" where
  "stopExistingAnimation g cardId =
     (if activeAnimations g cardId \<noteq> None then
        (case activeAnimations g cardId of
           Some existingAnimationID \<Rightarrow>
             if existingAnimationID \<noteq> 0 then
               let g1 = cancelAnimationFrame g existingAnimationID
               in g1\<lparr>activeAnimations := (activeAnimations g1)(existingAnimationID := None)\<rparr>
             else g
         | None \<Rightarrow> g)
      else g)"

definition cleanupAnimation :: "Garage \<Rightarrow> nat \<Rightarrow> Garage" where
  "cleanupAnimation g cid =
     (case activeAnimations g cid of
        Some animationId \<Rightarrow>
          if animationId \<noteq> 0 then
            let g1 = cancelAnimationFrame g animationId
            in g1\<lparr>activeAnimations := (activeAnimations g1)(cid := None)\<rparr>
          else g
      | None \<Rightarrow> g)"

subsection \<open>The animation loop\<close>

definition animationCar :: "Garage \<Rightarrow> CarAnimationOptions \<Rightarrow> nat \<times> Garage" where
  "animationCar g options =
     requestAnimationFrame g (CarAnimationOptions.extend options \<lparr>startTime = None\<rparr>)"

text \<open>The constants \<^verbatim>\<open>timeElapsed\<close> and \<^verbatim>\<open>progress\<close> of \<^verbatim>\<open>step(timestamp)\<close>: on the first
  run \<^verbatim>\<open>startTime ??= timestamp\<close> makes the elapsed time 0.\<close>

definition timeElapsedAt :: "step_closure \<Rightarrow> real \<Rightarrow> real" where
  "timeElapsedAt cl timestamp =
     timestamp - (case startTime cl of None \<Rightarrow> timestamp | Some t \<Rightarrow> t)"

definition progressAt :: "step_closure \<Rightarrow> real \<Rightarrow> jsnum" where
  "progressAt cl timestamp = js_div (Fin (timeElapsedAt cl timestamp)) (duration cl)"

text \<open>One run of \<^verbatim>\<open>step(timestamp)\<close> for a closure the browser has taken off its list.\<close>

definition step :: "Garage \<Rightarrow> step_closure \<Rightarrow> real \<Rightarrow> (error + unit) \<times> Garage" where
  "step g cl timestamp =
     (let cl1 = cl\<lparr>startTime := Some (case startTime cl of None \<Rightarrow> timestamp | Some t \<Rightarrow> t)\<rparr>;
          timeElapsed = timeElapsedAt cl timestamp;
          progress = progressAt cl timestamp;
          deltaX = js_mul progress (Fin (distanceX cl));
          g1 = g\<lparr>transformWrites := transformWrites g @ [(carId cl, deltaX)]\<rparr>
      in if js_lt progress (Fin 1) then
           (if activeAnimations g1 (carId cl) \<noteq> None then
              let (nextFrameId, g2) = requestAnimationFrame g1 cl1
              in (Inr (), g2\<lparr>activeAnimations := (activeAnimations g2)(carId cl \<mapsto> nextFrameId)\<rparr>)
            else (Inr (), g1))
         else
           let g2 = g1\<lparr>activeAnimations := (activeAnimations g1)(carId cl := None)\<rparr>
           in (case onFinish cl of
                 Some HandleCarFinish \<Rightarrow> handleCarFinish g2 (carId cl) timeElapsed
               | None \<Rightarrow> (Inr (), g2)))"

text \<open>The browser running the callback with handle \<open>h\<close> at time \<open>timestamp\<close>: a handle that
  is not pending (cancelled, or already run) does nothing.\<close>

definition runFrame :: "Garage \<Rightarrow> nat \<Rightarrow> real \<Rightarrow> (error + unit) \<times> Garage" where
  "runFrame g h timestamp =
     (case map_of (frameCallbacks g) h of
        None \<Rightarrow> (Inr (), g)
      | Some cl \<Rightarrow> step (cancelAnimationFrame g h) cl timestamp)"

subsection \<open>Health poll continuation\<close>

text \<open>\<^verbatim>\<open>{ success: boolean }\<close>, the value \<^verbatim>\<open>driveEngine\<close> resolves to.\<close>

record DriveResult =
  success :: bool

text \<open>\<^verbatim>\<open>checkDriveStatus\<close> from the point where \<^verbatim>\<open>await this.apiService.driveEngine(carId)\<close>
  settles: \<open>drive\<close> is what the promise settled to, \<open>g\<close> the state at that moment.\<close>

definition checkDriveStatus :: "Garage \<Rightarrow> nat \<Rightarrow> error + DriveResult \<Rightarrow> (error + unit) \<times> Garage" where
  "checkDriveStatus g cid drive =
     (case drive of
        Inl e \<Rightarrow> (Inl e, g)
      | Inr d \<Rightarrow>
          if \<not> success d then
            (case activeAnimations g cid of
               Some failedAnimationId \<Rightarrow>
                 if failedAnimationId \<noteq> 0 then
                   let g1 = cancelAnimationFrame g failedAnimationId
                   in (Inr (), g1\<lparr>activeAnimations := (activeAnimations g1)(cid := None)\<rparr>)
                 else (Inr (), g)
             | None \<Rightarrow> (Inr (), g))
          else (Inr (), g))"

subsection \<open>Preparing and starting a race\<close>

definition calculateAnimationDetails :: "Engine \<Rightarrow> Car \<Rightarrow> jsnum \<times> real" where
  "calculateAnimationDetails engineParameters carInstance =
     (js_div (Fin (distance engineParameters)) (Fin (velocity engineParameters)),
      flagRight carInstance - carLeft carInstance)"

text \<open>\<^verbatim>\<open>getReadyForRace\<close>; \<open>engine\<close> is what \<^verbatim>\<open>this.apiService.startEngine(carId)\<close> settled to.
  The lookup and \<^verbatim>\<open>stopExistingAnimation\<close> run before the request, the rest after it; the
  \<^verbatim>\<open>catch\<close> replaces any error by \<open>PrepareFailed\<close>.\<close>

definition getReadyForRace ::
  "Garage \<Rightarrow> nat \<Rightarrow> error + Engine \<Rightarrow> (error + CarAnimationOptions) \<times> Garage" where
  "getReadyForRace g cid engine =
     (case map_of (carInstances g) cid of
        None \<Rightarrow> (Inl (CarInstanceMissing cid), g)
      | Some carInstance \<Rightarrow>
          let g1 = stopExistingAnimation g cid in
          (case engine of
             Inl e \<Rightarrow> (Inl (PrepareFailed cid), g1)
           | Inr engineParameters \<Rightarrow>
               let (d, dx) = calculateAnimationDetails engineParameters carInstance
               in (Inr \<lparr>carId = cid, duration = d, distanceX = dx, onFinish = None\<rparr>, g1)))"

text \<open>The \<^verbatim>\<open>carIds.map\<close> of \<^verbatim>\<open>handleRace\<close>, one car after the other; \<open>engines c\<close> is what the
  start request of car \<open>c\<close> settled to. The calls that only enable or disable buttons
  (\<^verbatim>\<open>handleButtonState\<close>, \<^verbatim>\<open>disabledRaceButton\<close>) change nothing the race logic reads and are
  left out.\<close>

fun preparations ::
  "Garage \<Rightarrow> nat list \<Rightarrow> (nat \<Rightarrow> error + Engine) \<Rightarrow> (error + CarAnimationOptions) list \<times> Garage" where
  "preparations g [] engines = ([], g)"
| "preparations g (c # cs) engines =
     (let g1 = stopExistingAnimation g c;
          (r, g2) = getReadyForRace g1 c (engines c);
          (rs, g3) = preparations g2 cs engines
      in (r # rs, g3))"

text \<open>The loop over the results of \<^verbatim>\<open>Promise.allSettled\<close>: the fulfilled ones, each with
  \<^verbatim>\<open>onFinish\<close> set.\<close>

fun fulfilled :: "(error + CarAnimationOptions) list \<Rightarrow> CarAnimationOptions list" where
  "fulfilled [] = []"
| "fulfilled (Inr v # rs) = v\<lparr>onFinish := Some HandleCarFinish\<rparr> # fulfilled rs"
| "fulfilled (Inl e # rs) = fulfilled rs"

fun initiateAnimations :: "Garage \<Rightarrow> CarAnimationOptions list \<Rightarrow> nat list \<times> Garage" where
  "initiateAnimations g [] = ([], g)"
| "initiateAnimations g (carForAnimate # rest) =
     (let (animationId, g1) = animationCar g carForAnimate in
      if animationId \<noteq> 0 then
        let g2 = g1\<lparr>activeAnimations := (activeAnimations g1)(carId carForAnimate \<mapsto> animationId)\<rparr>;
            (started, g3) = initiateAnimations g2 rest
        in (carId carForAnimate # started, g3)
      else initiateAnimations g1 rest)"

text \<open>
  \<^verbatim>\<open>handleRace\<close> is suspended once, at \<^verbatim>\<open>await Promise.allSettled(preparationPromises)\<close>.
  \<open>handleRace_prepare\<close> is the part before it, run in one go when the button is pressed;
  \<open>handleRace_settled\<close> is the part after it, run on the state the page is in when every
  start request has settled. \<open>handleRace\<close> is the two with nothing happening in between.
\<close>

definition handleRace_prepare ::
  "Garage \<Rightarrow> (nat \<Rightarrow> error + Engine) \<Rightarrow> (error + (error + CarAnimationOptions) list) \<times> Garage" where
  "handleRace_prepare g engines =
     (let carIds = map fst (carInstances g) in
      if carIds = [] then (Inl NoCarsOnPage, g)
      else
        let g1 = hideMessage (resetWinnerData g);
            (results, g2) = preparations g1 carIds engines
        in (Inr results, g2))"

definition handleRace_settled :: "Garage \<Rightarrow> (error + CarAnimationOptions) list \<Rightarrow> Garage" where
  "handleRace_settled g results =
     (let carsReadyToAnimate = fulfilled results;
          (carsThatStartedAnimation, g3) = initiateAnimations g carsReadyToAnimate
      in g3\<lparr>spawned := spawned g3 @ map CheckDriveStatus carsThatStartedAnimation\<rparr>)"

definition handleRace :: "Garage \<Rightarrow> (nat \<Rightarrow> error + Engine) \<Rightarrow> (error + unit) \<times> Garage" where
  "handleRace g engines =
     (case handleRace_prepare g engines of
        (Inl e, g1) \<Rightarrow> (Inl e, g1)
      | (Inr results, g2) \<Rightarrow> (Inr (), handleRace_settled g2 results))"

section \<open>The API service\<close>

text \<open>
  A request is the method and URL that \<^verbatim>\<open>APIService\<close> passes to \<^verbatim>\<open>fetch\<close>:
  \<^verbatim>\<open>DELETE /garage/ID\<close>, \<^verbatim>\<open>DELETE /winners/ID\<close>, \<^verbatim>\<open>GET /winners/ID\<close>, \<^verbatim>\<open>POST /winners\<close> with a
  winner as body, \<^verbatim>\<open>PUT /winners/ID\<close> with the new wins and time, and
  \<^verbatim>\<open>PATCH /engine?id=ID&status=...\<close>.
\<close>

datatype engine_status = Started | Stopped | Drive

datatype request =
    DELETE_garage nat
  | DELETE_winners nat
  | GET_winners nat
  | POST_winners WinnerInformationFromApi
  | PUT_winners nat WinnerResponse
  | PATCH_engine nat engine_status

text \<open>
  A response body as the type guards of \<^verbatim>\<open>APIService\<close> see it: not JSON at all (then
  \<^verbatim>\<open>response.json()\<close> rejects), an object with a \<^verbatim>\<open>success\<close> key, one with \<^verbatim>\<open>velocity\<close> and
  \<^verbatim>\<open>distance\<close>, one with \<^verbatim>\<open>id\<close>, \<^verbatim>\<open>wins\<close> and \<^verbatim>\<open>time\<close>, or any other JSON value. The fields
  carry the types the TypeScript interfaces declare.
\<close>

datatype body =
    NoJson
  | OtherJson
  | SuccessObject DriveResult
  | EngineObject Engine
  | WinnerObject WinnerInformationFromApi

record Response =
  status :: nat
  body :: body

definition ok :: "Response \<Rightarrow> bool" where
  "ok response = (200 \<le> status response \<and> status response \<le> 299)"

datatype fetch_result = Rejected | Resolved Response

text \<open>\<^verbatim>\<open>fetch\<close> against the world outside the page (network and server), whose state is \<open>'w\<close>.\<close>

type_synonym 'w fetch = "request \<Rightarrow> 'w \<Rightarrow> fetch_result \<times> 'w"

definition deleteCar :: "'w fetch \<Rightarrow> nat \<Rightarrow> 'w \<Rightarrow> (error + unit) \<times> 'w" where
  "deleteCar fetch ID w =
     (case fetch (DELETE_garage ID) w of
        (Rejected, w1) \<Rightarrow> (Inl FetchRejected, w1)
      | (Resolved garageResponse, w1) \<Rightarrow>
          if \<not> ok garageResponse then (Inl (DeleteCarFailed ID), w1)
          else
            (case fetch (DELETE_winners ID) w1 of
               (Rejected, w2) \<Rightarrow> (Inl FetchRejected, w2)
             | (Resolved winnersResponse, w2) \<Rightarrow>
                 if \<not> ok winnersResponse then (Inl (DeleteFromWinnersFailed ID), w2)
                 else (Inr (), w2)))"

definition startEngine :: "'w fetch \<Rightarrow> nat \<Rightarrow> 'w \<Rightarrow> (error + Engine) \<times> 'w" where
  "startEngine fetch ID w =
     (case fetch (PATCH_engine ID Started) w of
        (Rejected, w1) \<Rightarrow> (Inl FetchRejected, w1)
      | (Resolved response, w1) \<Rightarrow>
          if \<not> ok response then (Inl (StartEngineFailed ID), w1)
          else
            (case body response of
               NoJson \<Rightarrow> (Inl JsonRejected, w1)
             | EngineObject data \<Rightarrow> (Inr data, w1)
             | _ \<Rightarrow> (Inl (InvalidFormat ID), w1)))"

definition driveEngine :: "'w fetch \<Rightarrow> nat \<Rightarrow> 'w \<Rightarrow> (error + DriveResult) \<times> 'w" where
  "driveEngine fetch ID w =
     (case fetch (PATCH_engine ID Drive) w of
        (Rejected, w1) \<Rightarrow> (Inl FetchRejected, w1)
      | (Resolved response, w1) \<Rightarrow>
          if \<not> ok response then (Inr \<lparr>success = False\<rparr>, w1)
          else
            (case body response of
               NoJson \<Rightarrow> (Inl JsonRejected, w1)
             | SuccessObject data \<Rightarrow> (Inr data, w1)
             | _ \<Rightarrow> (Inl (InvalidFormat ID), w1)))"

definition getWinner ::
  "'w fetch \<Rightarrow> nat \<Rightarrow> 'w \<Rightarrow> (error + WinnerInformationFromApi option) \<times> 'w" where
  "getWinner fetch ID w =
     (case fetch (GET_winners ID) w of
        (Rejected, w1) \<Rightarrow> (Inl FetchRejected, w1)
      | (Resolved response, w1) \<Rightarrow>
          if status response = 404 then (Inr None, w1)
          else
            (case body response of
               NoJson \<Rightarrow> (Inl JsonRejected, w1)
             | WinnerObject data \<Rightarrow> (Inr (Some data), w1)
             | _ \<Rightarrow> (Inl (InvalidFormat ID), w1)))"

definition createWinner :: "'w fetch \<Rightarrow> WinnerInformationFromApi \<Rightarrow> 'w \<Rightarrow> (error + unit) \<times> 'w" where
  "createWinner fetch winner w =
     (case fetch (POST_winners winner) w of
        (Rejected, w1) \<Rightarrow> (Inl FetchRejected, w1)
      | (Resolved response, w1) \<Rightarrow>
          if \<not> ok response then (Inl CreateWinnerFailed, w1) else (Inr (), w1))"

definition updateWinner :: "'w fetch \<Rightarrow> nat \<Rightarrow> WinnerResponse \<Rightarrow> 'w \<Rightarrow> (error + unit) \<times> 'w" where
  "updateWinner fetch ID options w =
     (case fetch (PUT_winners ID options) w of
        (Rejected, w1) \<Rightarrow> (Inl FetchRejected, w1)
      | (Resolved response, w1) \<Rightarrow>
          if \<not> ok response then (Inl UpdateWinnerFailed, w1) else (Inr (), w1))"

subsection \<open>sendOrUpdateWinnerData\<close>

text \<open>The three requests run one after the other against the world; whatever is thrown
  inside the \<^verbatim>\<open>try\<close> is replaced by \<open>ProcessWinnerFailed\<close>. The refresh of the winners table
  that follows reads the store only and is left out.\<close>

definition sendOrUpdateWinnerData :: "'w fetch \<Rightarrow> nat \<Rightarrow> real \<Rightarrow> 'w \<Rightarrow> (error + unit) \<times> 'w" where
  "sendOrUpdateWinnerData fetch cid timeSec w =
     (case getWinner fetch cid w of
        (Inl e, w1) \<Rightarrow> (Inl ProcessWinnerFailed, w1)
      | (Inr (Some existingWinner), w1) \<Rightarrow>
          (case updateWinner fetch cid
                  \<lparr>wins = wins existingWinner + 1, time = min (time existingWinner) timeSec\<rparr> w1 of
             (Inl e, w2) \<Rightarrow> (Inl ProcessWinnerFailed, w2)
           | (Inr u, w2) \<Rightarrow> (Inr (), w2))
      | (Inr None, w1) \<Rightarrow>
          (case createWinner fetch \<lparr>wins = 1, time = timeSec, winner_id = cid\<rparr> w1 of
             (Inl e, w2) \<Rightarrow> (Inl ProcessWinnerFailed, w2)
           | (Inr u, w2) \<Rightarrow> (Inr (), w2)))"

subsection \<open>A reference store\<close>

text \<open>
  Modelled from the spec: the remote store of section 6 (\<^verbatim>\<open>fetchWinnerRecord\<close>,
  \<^verbatim>\<open>createWinnerRecord\<close>, \<^verbatim>\<open>updateWinnerRecord\<close>), a separate server that is not part of this
  repository. Records are addressed by id; reading, replacing or deleting an absent record
  answers 404, creating one whose id exists is refused with 500, and the store serves no
  engine.
\<close>

record store =
  garage_db :: "nat \<rightharpoonup> CarInformation"
  winners_db :: "nat \<rightharpoonup> WinnerResponse"

fun store_fetch :: "store fetch" where
  "store_fetch (DELETE_garage i) s =
     (if garage_db s i = None then (Resolved \<lparr>status = 404, body = OtherJson\<rparr>, s)
      else (Resolved \<lparr>status = 200, body = OtherJson\<rparr>, s\<lparr>garage_db := (garage_db s)(i := None)\<rparr>))"
| "store_fetch (DELETE_winners i) s =
     (if winners_db s i = None then (Resolved \<lparr>status = 404, body = OtherJson\<rparr>, s)
      else (Resolved \<lparr>status = 200, body = OtherJson\<rparr>, s\<lparr>winners_db := (winners_db s)(i := None)\<rparr>))"
| "store_fetch (GET_winners i) s =
     (case winners_db s i of
        None \<Rightarrow> (Resolved \<lparr>status = 404, body = OtherJson\<rparr>, s)
      | Some r \<Rightarrow>
          (Resolved \<lparr>status = 200,
             body = WinnerObject \<lparr>wins = wins r, time = time r, winner_id = i\<rparr>\<rparr>, s))"
| "store_fetch (POST_winners r) s =
     (if winners_db s (winner_id r) \<noteq> None then (Resolved \<lparr>status = 500, body = NoJson\<rparr>, s)
      else (Resolved \<lparr>status = 201, body = WinnerObject r\<rparr>,
            s\<lparr>winners_db := (winners_db s)(winner_id r \<mapsto> \<lparr>wins = wins r, time = time r\<rparr>)\<rparr>))"
| "store_fetch (PUT_winners i r) s =
     (if winners_db s i = None then (Resolved \<lparr>status = 404, body = OtherJson\<rparr>, s)
      else (Resolved \<lparr>status = 200,
              body = WinnerObject \<lparr>wins = wins r, time = time r, winner_id = i\<rparr>\<rparr>,
            s\<lparr>winners_db := (winners_db s)(i \<mapsto> r)\<rparr>))"
| "store_fetch (PATCH_engine i st) s = (Resolved \<lparr>status = 404, body = OtherJson\<rparr>, s)"

section \<open>Sample states, networks and stores\<close>

text \<open>Two cars on the page, nothing animating, no winner.\<close>

definition sample_garage :: Garage where
  "sample_garage =
     \<lparr>cars = [\<lparr>car_name = ''Tesla'', car_color = ''#e6e6fa'', car_id = 1\<rparr>,
              \<lparr>car_name = ''BMW'', car_color = ''#fede00'', car_id = 2\<rparr>],
      carInstances = [(1, \<lparr>flagRight = 500, carLeft = 20\<rparr>),
                      (2, \<lparr>flagRight = 500, carLeft = 20\<rparr>)],
      activeAnimations = Map.empty, currentWinnerId = None, winnerData = None,
      message = None, frameHandle = 0, frameCallbacks = [], transformWrites = [],
      spawned = []\<rparr>"

text \<open>Car 1 started with its own button, two frames in: its pending frame has handle 3.\<close>

definition one_car_running :: Garage where
  "one_car_running =
     sample_garage
       \<lparr>activeAnimations := [1 \<mapsto> 3],
        frameHandle := 3,
        frameCallbacks :=
          [(3, \<lparr>carId = 1, duration = Fin 4000, distanceX = 480, onFinish = None,
                 startTime = Some 0\<rparr>)]\<rparr>"

text \<open>Car 2 started with its own button, then car 1, before the next frame: the frame of
  car 2 has handle 1 and the frame of car 1 has handle 2.\<close>

definition two_cars_started :: Garage where
  "two_cars_started =
     sample_garage
       \<lparr>activeAnimations := [2 \<mapsto> 1, 1 \<mapsto> 2],
        frameHandle := 2,
        frameCallbacks :=
          [(1, \<lparr>carId = 2, duration = Fin 5000, distanceX = 480, onFinish = None,
                 startTime = None\<rparr>),
           (2, \<lparr>carId = 1, duration = Fin 4000, distanceX = 480, onFinish = None,
                 startTime = None\<rparr>)]\<rparr>"

text \<open>The closure of a race animation of car 1 with duration 0, before its first frame.\<close>

definition cl_zero :: step_closure where
  "cl_zero = \<lparr>carId = 1, duration = Fin 0, distanceX = 480,
               onFinish = Some HandleCarFinish, startTime = None\<rparr>"

text \<open>A network on which every request fails before a response arrives, a server that
  answers every request with 500, and one whose engine of car 1 does not start.\<close>

definition offline :: "unit fetch" where
  "offline request w = (Rejected, w)"

definition broken_engine :: "unit fetch" where
  "broken_engine request w = (Resolved \<lparr>status = 500, body = NoJson\<rparr>, w)"

definition flaky_engine :: "unit fetch" where
  "flaky_engine request w =
     (case request of
        PATCH_engine i Started \<Rightarrow>
          if i = 1 then (Resolved \<lparr>status = 500, body = NoJson\<rparr>, w)
          else (Resolved \<lparr>status = 200,
                          body = EngineObject \<lparr>velocity = 100, distance = 500000\<rparr>\<rparr>, w)
      | _ \<Rightarrow> (Resolved \<lparr>status = 404, body = OtherJson\<rparr>, w))"

definition sample_engines :: "nat \<Rightarrow> error + Engine" where
  "sample_engines c = fst (startEngine flaky_engine c ())"

definition no_engine_starts :: "nat \<Rightarrow> error + Engine" where
  "no_engine_starts c = Inl (StartEngineFailed c)"

definition empty_store :: store where
  "empty_store = \<lparr>garage_db = Map.empty, winners_db = Map.empty\<rparr>"

definition store_with_car :: store where
  "store_with_car =
     \<lparr>garage_db = [4 \<mapsto> \<lparr>car_name = ''Ford'', car_color = ''#ef3c40''\<rparr>],
      winners_db = Map.empty\<rparr>"

definition store_with_winner :: store where
  "store_with_winner =
     \<lparr>garage_db = [4 \<mapsto> \<lparr>car_name = ''Ford'', car_color = ''#ef3c40''\<rparr>],
      winners_db = [4 \<mapsto> \<lparr>wins = 2, time = 12.40\<rparr>]\<rparr>"

section \<open>Properties\<close>

subsection \<open>Electing the winner\<close>







text \<open>
  Claim C10. A completion reported for a car id that is not in the cached car list, while
  no winner is recorded: \<open>handleCarFinish\<close> records the id as winner and then throws. Nothing
  else changes (no message, no winner data, no request to the winners store), the winner
  slot does not go back to its value before the call, and later completions are ignored.
\<close>

theorem finish_for_unknown_car:
  assumes "currentWinnerId g = None" and "find (\<lambda>car. car_id car = c) (cars g) = None"
  shows "handleCarFinish g c t = (Inl (WinnerCarDataNotFound c), g\<lparr>currentWinnerId := Some c\<rparr>) \<and>
         currentWinnerId (snd (handleCarFinish g c t)) \<noteq> currentWinnerId g \<and>
         handleCarFinish (snd (handleCarFinish g c t)) c' t' = (Inr (), snd (handleCarFinish g c t))"
  using assms by (simp add: handleCarFinish_def)

theorem finish_for_unknown_car_witness:
  "currentWinnerId sample_garage = None \<and>
   find (\<lambda>car. car_id car = 7) (cars sample_garage) = None \<and>
   handleCarFinish sample_garage 7 500 =
     (Inl (WinnerCarDataNotFound 7), sample_garage\<lparr>currentWinnerId := Some 7\<rparr>) \<and>
   handleCarFinish (snd (handleCarFinish sample_garage 7 500)) 2 900 =
     (Inr (), snd (handleCarFinish sample_garage 7 500))"
proof -
  have h: "currentWinnerId sample_garage = None"
    by (simp add: sample_garage_def)
  have f: "find (\<lambda>car. car_id car = 7) (cars sample_garage) = None"
    by (simp add: sample_garage_def)
  from h f finish_for_unknown_car [OF h f, of 500 2 900] show ?thesis by blast
qed

subsection \<open>Health poll\<close>

lemma map_of_cancelled:
  "map_of (filter (\<lambda>e. fst e \<noteq> h) xs) h' = (if h' = h then None else map_of xs h')"
  by (induction xs) auto

lemma checkDriveStatus_failed:
  "checkDriveStatus g E (Inr \<lparr>success = False\<rparr>) =
     (Inr (),
      case activeAnimations g E of
        None \<Rightarrow> g
      | Some h \<Rightarrow>
          if h = 0 then g
          else g\<lparr>frameCallbacks := filter (\<lambda>e. fst e \<noteq> h) (frameCallbacks g),
                 activeAnimations := (activeAnimations g)(E := None)\<rparr>)"
  by (simp add: checkDriveStatus_def cancelAnimationFrame_def split: option.splits)

text \<open>
  Claim C6. When the health poll of car \<open>E\<close> resolves to \<^verbatim>\<open>success: false\<close>, the frame handle
  recorded for \<open>E\<close> is cancelled and the entry of \<open>E\<close> is removed from \<open>activeAnimations\<close>. The
  entry of every other car, every pending frame other than the one recorded for \<open>E\<close>, the
  winner id and the winner data are left as they were, and so is the rest of the state.
\<close>

theorem health_failure_cancels_one_car:
  "(let g' = snd (checkDriveStatus g E (Inr \<lparr>success = False\<rparr>)) in
      fst (checkDriveStatus g E (Inr \<lparr>success = False\<rparr>)) = Inr () \<and>
      (\<forall>h. activeAnimations g E = Some h \<and> h \<noteq> 0 \<longrightarrow>
           activeAnimations g' E = None \<and> map_of (frameCallbacks g') h = None) \<and>
      (\<forall>c. c \<noteq> E \<longrightarrow> activeAnimations g' c = activeAnimations g c) \<and>
      (\<forall>h. activeAnimations g E \<noteq> Some h \<longrightarrow>
           map_of (frameCallbacks g') h = map_of (frameCallbacks g) h) \<and>
      currentWinnerId g' = currentWinnerId g \<and> winnerData g' = winnerData g \<and>
      message g' = message g \<and> spawned g' = spawned g \<and> cars g' = cars g \<and>
      carInstances g' = carInstances g \<and> frameHandle g' = frameHandle g \<and>
      transformWrites g' = transformWrites g)"
  by (auto simp: checkDriveStatus_failed map_of_cancelled Let_def split: option.splits)

theorem health_failure_cancels_one_car_witness:
  "fst (driveEngine broken_engine 2 ()) = Inr \<lparr>success = False\<rparr> \<and>
   activeAnimations two_cars_started 2 = Some 1 \<and>
   activeAnimations
     (snd (checkDriveStatus two_cars_started 2 (fst (driveEngine broken_engine 2 ())))) 2 = None \<and>
   map_of (frameCallbacks
     (snd (checkDriveStatus two_cars_started 2 (fst (driveEngine broken_engine 2 ()))))) 1 = None \<and>
   activeAnimations
     (snd (checkDriveStatus two_cars_started 2 (fst (driveEngine broken_engine 2 ())))) 1 = Some 2 \<and>
   map_of (frameCallbacks
     (snd (checkDriveStatus two_cars_started 2 (fst (driveEngine broken_engine 2 ()))))) 2 =
     map_of (frameCallbacks two_cars_started) 2"
proof -
  have p: "fst (driveEngine broken_engine 2 ()) = Inr \<lparr>success = False\<rparr>"
    by (simp add: driveEngine_def broken_engine_def ok_def)
  have a: "activeAnimations two_cars_started 2 = Some 1"
    by (simp add: two_cars_started_def)
  have b: "activeAnimations two_cars_started 1 = Some 2"
    by (simp add: two_cars_started_def)
  note i = health_failure_cancels_one_car [of two_cars_started 2, unfolded Let_def]
  from i a have c: "activeAnimations
       (snd (checkDriveStatus two_cars_started 2 (Inr \<lparr>success = False\<rparr>))) 2 = None \<and>
     map_of (frameCallbacks
       (snd (checkDriveStatus two_cars_started 2 (Inr \<lparr>success = False\<rparr>)))) 1 = None"
    by simp
  from i have "activeAnimations
       (snd (checkDriveStatus two_cars_started 2 (Inr \<lparr>success = False\<rparr>))) 1 =
     activeAnimations two_cars_started 1"
    by simp
  then have d: "activeAnimations
       (snd (checkDriveStatus two_cars_started 2 (Inr \<lparr>success = False\<rparr>))) 1 = Some 2"
    using b by simp
  from i a have e: "map_of (frameCallbacks
       (snd (checkDriveStatus two_cars_started 2 (Inr \<lparr>success = False\<rparr>)))) 2 =
     map_of (frameCallbacks two_cars_started) 2"
    by simp
  from p a c d e show ?thesis by (simp only: p)
qed

subsection \<open>Zero duration\<close>

lemma progress_first_frame_zero:
  "duration cl = Fin 0 \<Longrightarrow> startTime cl = None \<Longrightarrow> progressAt cl ts = NaN"
  by (simp add: progressAt_def timeElapsedAt_def)

lemma handleCarFinish_frames:
  "frameCallbacks (snd (handleCarFinish g c t)) = frameCallbacks g \<and>
   transformWrites (snd (handleCarFinish g c t)) = transformWrites g \<and>
   activeAnimations (snd (handleCarFinish g c t)) = activeAnimations g \<and>
   frameHandle (snd (handleCarFinish g c t)) = frameHandle g"
  by (simp add: handleCarFinish_def showMessage_def Let_def split: option.splits)

lemma step_zero_duration:
  assumes "duration cl = Fin 0" and "startTime cl = None"
  shows "step g cl ts =
           (let g2 = g\<lparr>transformWrites := transformWrites g @ [(carId cl, NaN)],
                       activeAnimations := (activeAnimations g)(carId cl := None)\<rparr>
            in case onFinish cl of
                 Some HandleCarFinish \<Rightarrow> handleCarFinish g2 (carId cl) 0
               | None \<Rightarrow> (Inr (), g2))"
  using assms
  by (simp add: step_def progressAt_def timeElapsedAt_def Let_def split: option.splits finish_handler.splits)

lemma zero_distance_duration:
  "distance e = 0 \<Longrightarrow> velocity e \<noteq> 0 \<Longrightarrow> fst (calculateAnimationDetails e inst) = Fin 0"
  by (simp add: calculateAnimationDetails_def)

text \<open>
  Claim C7, as stated, fails: with duration 0 the progress of the first frame is
  \<^verbatim>\<open>0 / 0\<close>, that is \<^verbatim>\<open>NaN\<close>, and \<^verbatim>\<open>NaN >= 1\<close> is false.
\<close>

theorem zero_duration_counterexample:
  "\<not> js_ge (progressAt \<lparr>carId = 1, duration = Fin 0, distanceX = 480,
                         onFinish = Some HandleCarFinish, startTime = None\<rparr> 1000) (Fin 1)"
  by (simp add: progressAt_def timeElapsedAt_def)

text \<open>
  Claim C7, amended. For a closure with duration 0 (which is what a zero engine distance
  gives, \<open>zero_distance_duration\<close>) the first frame computes the progress \<^verbatim>\<open>NaN\<close>, which
  satisfies neither \<^verbatim>\<open>progress < 1\<close> nor \<^verbatim>\<open>progress >= 1\<close>. The loop tests \<^verbatim>\<open>progress < 1\<close> and
  completes otherwise, so that frame removes the registry entry of the car, requests no
  further frame and calls the completion callback with elapsed time 0. The one position it
  assigns is \<^verbatim>\<open>NaN\<close>, not a position between start and finish. When the browser runs that
  frame, it leaves its list of pending frames and nothing enters the list.
\<close>

theorem zero_duration_completes_first_frame:
  assumes "duration cl = Fin 0" and "startTime cl = None"
  shows "progressAt cl ts = NaN \<and> \<not> js_lt (progressAt cl ts) (Fin 1) \<and>
         \<not> js_ge (progressAt cl ts) (Fin 1) \<and>
         timeElapsedAt cl ts = 0 \<and>
         step g cl ts =
           (let g2 = g\<lparr>transformWrites := transformWrites g @ [(carId cl, NaN)],
                       activeAnimations := (activeAnimations g)(carId cl := None)\<rparr>
            in case onFinish cl of
                 Some HandleCarFinish \<Rightarrow> handleCarFinish g2 (carId cl) 0
               | None \<Rightarrow> (Inr (), g2)) \<and>
         frameCallbacks (snd (step g cl ts)) = frameCallbacks g \<and>
         transformWrites (snd (step g cl ts)) = transformWrites g @ [(carId cl, NaN)] \<and>
         activeAnimations (snd (step g cl ts)) (carId cl) = None \<and>
         (\<forall>h. map_of (frameCallbacks g) h = Some cl \<longrightarrow>
            frameCallbacks (snd (runFrame g h ts)) =
              filter (\<lambda>e. fst e \<noteq> h) (frameCallbacks g))"
proof -
  have p: "progressAt cl ts = NaN"
    using assms by (rule progress_first_frame_zero)
  have e: "timeElapsedAt cl ts = 0"
    using assms by (simp add: timeElapsedAt_def)
  note s = step_zero_duration [OF assms, of g ts]
  have f: "frameCallbacks (snd (step g cl ts)) = frameCallbacks g"
    by (simp add: s Let_def handleCarFinish_frames split: option.splits finish_handler.splits)
  have w: "transformWrites (snd (step g cl ts)) = transformWrites g @ [(carId cl, NaN)]"
    by (simp add: s Let_def handleCarFinish_frames split: option.splits finish_handler.splits)
  have a: "activeAnimations (snd (step g cl ts)) (carId cl) = None"
    by (simp add: s Let_def handleCarFinish_frames split: option.splits finish_handler.splits)
  have r: "\<forall>h. map_of (frameCallbacks g) h = Some cl \<longrightarrow>
      frameCallbacks (snd (runFrame g h ts)) = filter (\<lambda>e. fst e \<noteq> h) (frameCallbacks g)"
    by (simp add: runFrame_def step_zero_duration [OF assms] cancelAnimationFrame_def Let_def
          handleCarFinish_frames split: option.splits finish_handler.splits)
  show ?thesis using p e s f w a r by simp
qed

theorem zero_duration_completes_first_frame_witness:
  "duration cl_zero = Fin 0 \<and> startTime cl_zero = None \<and>
   progressAt cl_zero 1000 = NaN \<and>
   step sample_garage cl_zero 1000 =
     handleCarFinish
       (sample_garage\<lparr>transformWrites := transformWrites sample_garage @ [(carId cl_zero, NaN)],
          activeAnimations := (activeAnimations sample_garage)(carId cl_zero := None)\<rparr>)
       (carId cl_zero) 0 \<and>
   currentWinnerId (snd (step sample_garage cl_zero 1000)) = Some 1 \<and>
   frameCallbacks (snd (step sample_garage cl_zero 1000)) = []"
proof -
  have a: "duration cl_zero = Fin 0" by (simp add: cl_zero_def)
  have b: "startTime cl_zero = None" by (simp add: cl_zero_def)
  have o: "onFinish cl_zero = Some HandleCarFinish" by (simp add: cl_zero_def)
  note i = zero_duration_completes_first_frame [OF a b, of 1000 sample_garage, unfolded Let_def o]
  from i have c: "progressAt cl_zero 1000 = NaN" by blast
  from i have d: "step sample_garage cl_zero 1000 =
     handleCarFinish
       (sample_garage\<lparr>transformWrites := transformWrites sample_garage @ [(carId cl_zero, NaN)],
          activeAnimations := (activeAnimations sample_garage)(carId cl_zero := None)\<rparr>)
       (carId cl_zero) 0"
    by simp
  have e: "currentWinnerId (snd (step sample_garage cl_zero 1000)) = Some 1"
    unfolding d by (simp add: handleCarFinish_def sample_garage_def cl_zero_def showMessage_def Let_def)
  from i have "frameCallbacks (snd (step sample_garage cl_zero 1000)) = frameCallbacks sample_garage"
    by blast
  then have f: "frameCallbacks (snd (step sample_garage cl_zero 1000)) = []"
    by (simp add: sample_garage_def)
  from a b c d e f show ?thesis by blast
qed

subsection \<open>driveEngine\<close>

text \<open>
  Claim C8, as stated, fails: when \<^verbatim>\<open>fetch\<close> rejects (no response at all), \<^verbatim>\<open>driveEngine\<close>
  rejects with it.
\<close>

theorem driveEngine_throws_counterexample:
  "fst (driveEngine offline 1 ()) = Inl FetchRejected"
  by (simp add: driveEngine_def offline_def)

text \<open>
  Claim C8, amended. \<^verbatim>\<open>driveEngine\<close> resolves to \<^verbatim>\<open>success: false\<close> for every response whose
  status is not ok, and to the parsed body for an ok response that carries a \<^verbatim>\<open>success\<close>
  key. It throws when \<^verbatim>\<open>fetch\<close> rejects, when the body of an ok response is not JSON, and
  when the parsed body has no \<^verbatim>\<open>success\<close> key. It sends the one request and no other.
\<close>

theorem driveEngine_outcomes:
  "(fst (fetch (PATCH_engine ID Drive) w) = Rejected \<longrightarrow>
      fst (driveEngine fetch ID w) = Inl FetchRejected) \<and>
   (\<forall>r. fst (fetch (PATCH_engine ID Drive) w) = Resolved r \<and> \<not> ok r \<longrightarrow>
      fst (driveEngine fetch ID w) = Inr \<lparr>success = False\<rparr>) \<and>
   (\<forall>r d. fst (fetch (PATCH_engine ID Drive) w) = Resolved r \<and> ok r \<and> body r = SuccessObject d \<longrightarrow>
      fst (driveEngine fetch ID w) = Inr d) \<and>
   (\<forall>r. fst (fetch (PATCH_engine ID Drive) w) = Resolved r \<and> ok r \<and> body r = NoJson \<longrightarrow>
      fst (driveEngine fetch ID w) = Inl JsonRejected) \<and>
   (\<forall>r. fst (fetch (PATCH_engine ID Drive) w) = Resolved r \<and> ok r \<and> body r \<noteq> NoJson \<and>
        (\<forall>d. body r \<noteq> SuccessObject d) \<longrightarrow>
      fst (driveEngine fetch ID w) = Inl (InvalidFormat ID)) \<and>
   snd (driveEngine fetch ID w) = snd (fetch (PATCH_engine ID Drive) w)"
  by (auto simp: driveEngine_def split: prod.splits fetch_result.splits body.splits)

theorem driveEngine_outcomes_witness:
  "fst (broken_engine (PATCH_engine 1 Drive) ()) = Resolved \<lparr>status = 500, body = NoJson\<rparr> \<and>
   \<not> ok \<lparr>status = 500, body = NoJson\<rparr> \<and>
   fst (driveEngine broken_engine 1 ()) = Inr \<lparr>success = False\<rparr> \<and>
   fst (offline (PATCH_engine 1 Drive) ()) = Rejected \<and>
   fst (driveEngine offline 1 ()) = Inl FetchRejected"
proof -
  have a: "fst (broken_engine (PATCH_engine 1 Drive) ()) = Resolved \<lparr>status = 500, body = NoJson\<rparr>"
    by (simp add: broken_engine_def)
  have b: "\<not> ok \<lparr>status = 500, body = NoJson\<rparr>"
    by (simp add: ok_def)
  have c: "fst (offline (PATCH_engine 1 Drive) ()) = Rejected"
    by (simp add: offline_def)
  from a b driveEngine_outcomes [of broken_engine 1 "()"]
  have d: "fst (driveEngine broken_engine 1 ()) = Inr \<lparr>success = False\<rparr>" by blast
  from c driveEngine_outcomes [of offline 1 "()"]
  have e: "fst (driveEngine offline 1 ()) = Inl FetchRejected" by blast
  from a b c d e show ?thesis by blast
qed

subsection \<open>deleteCar\<close>

text \<open>
  Claim C9. Once the garage has answered the delete of car \<open>ID\<close> with an ok status,
  \<^verbatim>\<open>deleteCar\<close> sends the delete of the winner record of \<open>ID\<close> whatever the store holds, and
  sends nothing after it; when that second response is not ok it throws. Against the
  reference store, for a car that is in the garage and has no winner record: the error is
  thrown and the car is gone from the garage.
\<close>

theorem deleteCar_winner_delete_fails:
  "(\<forall>r1 w1. fetch (DELETE_garage ID) w = (Resolved r1, w1) \<and> ok r1 \<longrightarrow>
      snd (deleteCar fetch ID w) = snd (fetch (DELETE_winners ID) w1) \<and>
      (\<forall>r2. fst (fetch (DELETE_winners ID) w1) = Resolved r2 \<and> \<not> ok r2 \<longrightarrow>
         fst (deleteCar fetch ID w) = Inl (DeleteFromWinnersFailed ID))) \<and>
   (garage_db s ID \<noteq> None \<and> winners_db s ID = None \<longrightarrow>
      deleteCar store_fetch ID s =
        (Inl (DeleteFromWinnersFailed ID), s\<lparr>garage_db := (garage_db s)(ID := None)\<rparr>))"
  by (auto simp: deleteCar_def ok_def split: prod.splits fetch_result.splits)

theorem deleteCar_winner_delete_fails_witness:
  "garage_db store_with_car 4 \<noteq> None \<and> winners_db store_with_car 4 = None \<and>
   deleteCar store_fetch 4 store_with_car =
     (Inl (DeleteFromWinnersFailed 4), store_with_car\<lparr>garage_db := (garage_db store_with_car)(4 := None)\<rparr>) \<and>
   garage_db (snd (deleteCar store_fetch 4 store_with_car)) 4 = None"
proof -
  have a: "garage_db store_with_car 4 \<noteq> None" by (simp add: store_with_car_def)
  have b: "winners_db store_with_car 4 = None" by (simp add: store_with_car_def)
  from a b deleteCar_winner_delete_fails [of store_fetch 4 store_with_car store_with_car]
  have c: "deleteCar store_fetch 4 store_with_car =
     (Inl (DeleteFromWinnersFailed 4), store_with_car\<lparr>garage_db := (garage_db store_with_car)(4 := None)\<rparr>)"
    by blast
  then have d: "garage_db (snd (deleteCar store_fetch 4 store_with_car)) 4 = None" by simp
  from a b c d show ?thesis by blast
qed

subsection \<open>Recording a win\<close>

lemma sendOrUpdateWinnerData_absent:
  "winners_db s cid = None \<Longrightarrow>
   sendOrUpdateWinnerData store_fetch cid t s =
     (Inr (), s\<lparr>winners_db := (winners_db s)(cid \<mapsto> \<lparr>wins = 1, time = t\<rparr>)\<rparr>)"
  by (simp add: sendOrUpdateWinnerData_def getWinner_def createWinner_def ok_def)

lemma sendOrUpdateWinnerData_present:
  "winners_db s cid = Some ex \<Longrightarrow>
   sendOrUpdateWinnerData store_fetch cid t s =
     (Inr (), s\<lparr>winners_db := (winners_db s)(cid \<mapsto> \<lparr>wins = wins ex + 1, time = min (time ex) t\<rparr>)\<rparr>)"
  by (simp add: sendOrUpdateWinnerData_def getWinner_def updateWinner_def ok_def)

lemma sendOrUpdateWinnerData_requests:
  "(\<forall>r w1. fetch (GET_winners cid) w = (Resolved r, w1) \<and> status r = 404 \<longrightarrow>
      snd (sendOrUpdateWinnerData fetch cid t w) =
        snd (fetch (POST_winners \<lparr>wins = 1, time = t, winner_id = cid\<rparr>) w1)) \<and>
   (\<forall>r w1 ex. fetch (GET_winners cid) w = (Resolved r, w1) \<and> status r \<noteq> 404 \<and>
        body r = WinnerObject ex \<longrightarrow>
      snd (sendOrUpdateWinnerData fetch cid t w) =
        snd (fetch (PUT_winners cid \<lparr>wins = wins ex + 1, time = min (time ex) t\<rparr>) w1))"
  by (auto simp: sendOrUpdateWinnerData_def getWinner_def createWinner_def updateWinner_def
           split: prod.splits fetch_result.splits sum.splits option.splits)

text \<open>
  Claim C2. \<^verbatim>\<open>sendOrUpdateWinnerData\<close> first reads the winner record of the car. On a 404 it
  posts a record with \<open>wins = 1\<close> and the new time; on a winner record it puts
  \<open>wins = wins + 1\<close> and the smaller of the recorded and the new time. Against the reference
  store the record afterwards is exactly that.
\<close>

theorem winner_record_merge:
  "(\<forall>r w1. fetch (GET_winners cid) w = (Resolved r, w1) \<and> status r = 404 \<longrightarrow>
      snd (sendOrUpdateWinnerData fetch cid t w) =
        snd (fetch (POST_winners \<lparr>wins = 1, time = t, winner_id = cid\<rparr>) w1)) \<and>
   (\<forall>r w1 ex. fetch (GET_winners cid) w = (Resolved r, w1) \<and> status r \<noteq> 404 \<and>
        body r = WinnerObject ex \<longrightarrow>
      snd (sendOrUpdateWinnerData fetch cid t w) =
        snd (fetch (PUT_winners cid \<lparr>wins = wins ex + 1, time = min (time ex) t\<rparr>) w1)) \<and>
   (winners_db s cid = None \<longrightarrow>
      sendOrUpdateWinnerData store_fetch cid t s =
        (Inr (), s\<lparr>winners_db := (winners_db s)(cid \<mapsto> \<lparr>wins = 1, time = t\<rparr>)\<rparr>)) \<and>
   (\<forall>ex. winners_db s cid = Some ex \<longrightarrow>
      sendOrUpdateWinnerData store_fetch cid t s =
        (Inr (), s\<lparr>winners_db :=
                    (winners_db s)(cid \<mapsto> \<lparr>wins = wins ex + 1, time = min (time ex) t\<rparr>)\<rparr>))"
  using sendOrUpdateWinnerData_requests [of fetch cid w t]
    sendOrUpdateWinnerData_absent [of s cid t] sendOrUpdateWinnerData_present [of s cid _ t]
  by blast

theorem winner_record_merge_witness:
  "winners_db store_with_winner 4 = Some \<lparr>wins = 2, time = 12.40\<rparr> \<and>
   winners_db (snd (sendOrUpdateWinnerData store_fetch 4 11.90 store_with_winner)) 4 =
     Some \<lparr>wins = 3, time = 11.90\<rparr> \<and>
   winners_db (snd (sendOrUpdateWinnerData store_fetch 4 13.00 store_with_winner)) 4 =
     Some \<lparr>wins = 3, time = 12.40\<rparr> \<and>
   winners_db empty_store 4 = None \<and>
   winners_db (snd (sendOrUpdateWinnerData store_fetch 4 11.90 empty_store)) 4 =
     Some \<lparr>wins = 1, time = 11.90\<rparr>"
proof -
  have a: "winners_db store_with_winner 4 = Some \<lparr>wins = 2, time = 12.40\<rparr>"
    by (simp add: store_with_winner_def)
  have n: "winners_db empty_store 4 = None"
    by (simp add: empty_store_def)
  from a winner_record_merge [of store_fetch 4 store_with_winner "11.90" store_with_winner]
  have "sendOrUpdateWinnerData store_fetch 4 11.90 store_with_winner =
      (Inr (), store_with_winner\<lparr>winners_db := (winners_db store_with_winner)
         (4 \<mapsto> \<lparr>wins = wins \<lparr>wins = 2, time = 12.40\<rparr> + 1,
                time = min (time \<lparr>wins = 2, time = 12.40\<rparr>) 11.90\<rparr>)\<rparr>)"
    by blast
  then have b: "winners_db (snd (sendOrUpdateWinnerData store_fetch 4 11.90 store_with_winner)) 4 =
      Some \<lparr>wins = 3, time = 11.90\<rparr>"
    by simp
  from a winner_record_merge [of store_fetch 4 store_with_winner "13.00" store_with_winner]
  have "sendOrUpdateWinnerData store_fetch 4 13.00 store_with_winner =
      (Inr (), store_with_winner\<lparr>winners_db := (winners_db store_with_winner)
         (4 \<mapsto> \<lparr>wins = wins \<lparr>wins = 2, time = 12.40\<rparr> + 1,
                time = min (time \<lparr>wins = 2, time = 12.40\<rparr>) 13.00\<rparr>)\<rparr>)"
    by blast
  then have c: "winners_db (snd (sendOrUpdateWinnerData store_fetch 4 13.00 store_with_winner)) 4 =
      Some \<lparr>wins = 3, time = 12.40\<rparr>"
    by simp
  from n winner_record_merge [of store_fetch 4 empty_store "11.90" empty_store]
  have "sendOrUpdateWinnerData store_fetch 4 11.90 empty_store =
      (Inr (), empty_store\<lparr>winners_db := (winners_db empty_store)(4 \<mapsto> \<lparr>wins = 1, time = 11.90\<rparr>)\<rparr>)"
    by blast
  then have d: "winners_db (snd (sendOrUpdateWinnerData store_fetch 4 11.90 empty_store)) 4 =
      Some \<lparr>wins = 1, time = 11.90\<rparr>"
    by simp
  from a b c n d show ?thesis by blast
qed

text \<open>
  Claim C3, as stated, fails: recording the same result (car 4, 11.90 s) twice in an empty
  store leaves a record that differs from the one left by recording it once.
\<close>

theorem merge_twice_counterexample:
  "winners_db (snd (sendOrUpdateWinnerData store_fetch 4 11.90
       (snd (sendOrUpdateWinnerData store_fetch 4 11.90 empty_store)))) 4 \<noteq>
   winners_db (snd (sendOrUpdateWinnerData store_fetch 4 11.90 empty_store)) 4"
  by (simp add: sendOrUpdateWinnerData_absent sendOrUpdateWinnerData_present empty_store_def)

text \<open>
  Claim C3, amended. Recording the same result twice leaves the best time that recording
  it once leaves, and a \<open>wins\<close> count one higher: every call counts one win.
\<close>

theorem merge_twice_counts_twice:
  "winners_db (snd (sendOrUpdateWinnerData store_fetch cid t s)) cid \<noteq> None \<and>
   winners_db (snd (sendOrUpdateWinnerData store_fetch cid t
                      (snd (sendOrUpdateWinnerData store_fetch cid t s)))) cid =
     map_option (\<lambda>r. r\<lparr>wins := wins r + 1\<rparr>)
       (winners_db (snd (sendOrUpdateWinnerData store_fetch cid t s)) cid)"
proof (cases "winners_db s cid")
  case None
  then show ?thesis
    by (simp add: sendOrUpdateWinnerData_absent sendOrUpdateWinnerData_present)
next
  case (Some ex)
  then show ?thesis
    by (simp add: sendOrUpdateWinnerData_present min_def)
qed

subsection \<open>Race preparation\<close>

lemma stopExistingAnimation_frame:
  "carInstances (stopExistingAnimation g c) = carInstances g \<and>
   frameHandle (stopExistingAnimation g c) = frameHandle g \<and>
   spawned (stopExistingAnimation g c) = spawned g \<and>
   currentWinnerId (stopExistingAnimation g c) = currentWinnerId g \<and>
   winnerData (stopExistingAnimation g c) = winnerData g \<and>
   set (frameCallbacks (stopExistingAnimation g c)) \<subseteq> set (frameCallbacks g)"
  by (auto simp: stopExistingAnimation_def cancelAnimationFrame_def Let_def split: option.splits)

lemma getReadyForRace_frame:
  "carInstances (snd (getReadyForRace g c e)) = carInstances g \<and>
   frameHandle (snd (getReadyForRace g c e)) = frameHandle g \<and>
   spawned (snd (getReadyForRace g c e)) = spawned g \<and>
   currentWinnerId (snd (getReadyForRace g c e)) = currentWinnerId g \<and>
   winnerData (snd (getReadyForRace g c e)) = winnerData g \<and>
   set (frameCallbacks (snd (getReadyForRace g c e))) \<subseteq> set (frameCallbacks g)"
  using stopExistingAnimation_frame [of g c]
  by (auto simp: getReadyForRace_def Let_def split: option.splits sum.splits prod.splits)

lemma getReadyForRace_result:
  "carInstances g1 = carInstances g \<Longrightarrow>
   fst (getReadyForRace g1 c e) = fst (getReadyForRace g c e)"
  by (auto simp: getReadyForRace_def Let_def split: option.splits sum.splits prod.splits)

lemma preparations_frame:
  "carInstances (snd (preparations g cs engines)) = carInstances g \<and>
   frameHandle (snd (preparations g cs engines)) = frameHandle g \<and>
   spawned (snd (preparations g cs engines)) = spawned g \<and>
   currentWinnerId (snd (preparations g cs engines)) = currentWinnerId g \<and>
   winnerData (snd (preparations g cs engines)) = winnerData g \<and>
   set (frameCallbacks (snd (preparations g cs engines))) \<subseteq> set (frameCallbacks g)"
proof (induction cs arbitrary: g)
  case Nil
  show ?case by simp
next
  case (Cons c cs)
  let ?g1 = "stopExistingAnimation g c"
  let ?g2 = "snd (getReadyForRace ?g1 c (engines c))"
  have s: "snd (preparations g (c # cs) engines) = snd (preparations ?g2 cs engines)"
    by (simp add: Let_def split: prod.splits)
  show ?case
    unfolding s
    using Cons.IH [of ?g2] getReadyForRace_frame [of ?g1 c "engines c"]
      stopExistingAnimation_frame [of g c]
    by auto
qed

lemma preparations_results:
  "carInstances g1 = carInstances g \<Longrightarrow>
   fst (preparations g1 cs engines) = map (\<lambda>c. fst (getReadyForRace g c (engines c))) cs"
proof (induction cs arbitrary: g1)
  case Nil
  show ?case by simp
next
  case (Cons c cs)
  let ?g1 = "stopExistingAnimation g1 c"
  let ?g2 = "snd (getReadyForRace ?g1 c (engines c))"
  have i1: "carInstances ?g1 = carInstances g"
    using Cons.prems stopExistingAnimation_frame [of g1 c] by simp
  have i2: "carInstances ?g2 = carInstances g"
    using i1 getReadyForRace_frame [of ?g1 c "engines c"] by simp
  have f: "fst (preparations g1 (c # cs) engines) =
             fst (getReadyForRace ?g1 c (engines c)) # fst (preparations ?g2 cs engines)"
    by (simp add: Let_def split: prod.splits)
  show ?case
    unfolding f using Cons.IH [OF i2] getReadyForRace_result [OF i1] by simp
qed

lemma getReadyForRace_known:
  assumes "c \<in> fst ` set (carInstances g)"
  shows "isl (fst (getReadyForRace g c e)) = isl e \<and>
         (isl e \<longrightarrow> fst (getReadyForRace g c e) = Inl (PrepareFailed c)) \<and>
         (\<not> isl e \<longrightarrow> carId (projr (fst (getReadyForRace g c e))) = c)"
proof -
  from assms obtain inst where "map_of (carInstances g) c = Some inst"
    by (metis domD dom_map_of_conv_image_fst)
  then show ?thesis
    by (auto simp: getReadyForRace_def Let_def split: sum.splits prod.splits)
qed

lemma fulfilled_map:
  "fulfilled (map f cs) =
     map (\<lambda>c. (projr (f c))\<lparr>onFinish := Some HandleCarFinish\<rparr>) (filter (\<lambda>c. \<not> isl (f c)) cs)"
proof (induction cs)
  case Nil
  show ?case by simp
next
  case (Cons c cs)
  then show ?case by (cases "f c") simp_all
qed

subsection \<open>Starting the animations\<close>

lemma animationCar_eq:
  "animationCar g opts =
     (Suc (frameHandle g),
      g\<lparr>frameHandle := Suc (frameHandle g),
        frameCallbacks := frameCallbacks g @
          [(Suc (frameHandle g), CarAnimationOptions.extend opts \<lparr>startTime = None\<rparr>)]\<rparr>)"
  by (simp add: animationCar_def requestAnimationFrame_def Let_def)

lemma initiateAnimations_Cons:
  "initiateAnimations g (opt # rest) =
     (let g2 = g\<lparr>frameHandle := Suc (frameHandle g),
                 frameCallbacks := frameCallbacks g @
                   [(Suc (frameHandle g), CarAnimationOptions.extend opt \<lparr>startTime = None\<rparr>)],
                 activeAnimations := (activeAnimations g)(carId opt \<mapsto> Suc (frameHandle g))\<rparr>
      in (carId opt # fst (initiateAnimations g2 rest), snd (initiateAnimations g2 rest)))"
  by (simp add: animationCar_eq Let_def split: prod.splits)

lemma initiateAnimations_started:
  "fst (initiateAnimations g opts) = map carId opts"
  by (induction opts arbitrary: g) (simp_all add: initiateAnimations_Cons Let_def del: initiateAnimations.simps(2))

lemma initiateAnimations_frame:
  "frameHandle (snd (initiateAnimations g opts)) = frameHandle g + length opts \<and>
   spawned (snd (initiateAnimations g opts)) = spawned g \<and>
   carInstances (snd (initiateAnimations g opts)) = carInstances g \<and>
   currentWinnerId (snd (initiateAnimations g opts)) = currentWinnerId g \<and>
   winnerData (snd (initiateAnimations g opts)) = winnerData g"
  by (induction opts arbitrary: g) (simp_all add: initiateAnimations_Cons Let_def del: initiateAnimations.simps(2))

lemma initiateAnimations_callbacks:
  "frameCallbacks (snd (initiateAnimations g opts)) =
     frameCallbacks g @
       zip [Suc (frameHandle g) ..< Suc (frameHandle g + length opts)]
           (map (\<lambda>opt. CarAnimationOptions.extend opt \<lparr>startTime = None\<rparr>) opts)"
proof (induction opts arbitrary: g)
  case Nil
  show ?case by simp
next
  case (Cons opt rest)
  have u: "[Suc (frameHandle g) ..< Suc (frameHandle g + length (opt # rest))] =
             Suc (frameHandle g) # [Suc (Suc (frameHandle g)) ..< Suc (Suc (frameHandle g) + length rest)]"
    by (subst upt_rec) simp
  show ?case
    unfolding u by (simp add: initiateAnimations_Cons Let_def Cons.IH del: initiateAnimations.simps(2))
qed

lemma initiateAnimations_other:
  "c \<notin> carId ` set opts \<Longrightarrow>
   activeAnimations (snd (initiateAnimations g opts)) c = activeAnimations g c"
  by (induction opts arbitrary: g) (simp_all add: initiateAnimations_Cons Let_def del: initiateAnimations.simps(2))

lemma initiateAnimations_registry:
  "distinct (map carId opts) \<Longrightarrow> i < length opts \<Longrightarrow>
   activeAnimations (snd (initiateAnimations g opts)) (carId (opts ! i)) = Some (Suc (frameHandle g + i))"
proof (induction opts arbitrary: g i)
  case Nil
  then show ?case by simp
next
  case (Cons opt rest)
  show ?case
  proof (cases i)
    case 0
    have "carId opt \<notin> carId ` set rest" using Cons.prems(1) by auto
    then show ?thesis
      using 0 by (simp add: initiateAnimations_Cons Let_def initiateAnimations_other del: initiateAnimations.simps(2))
  next
    case (Suc j)
    then have j: "j < length rest" using Cons.prems(2) by simp
    have d: "distinct (map carId rest)" using Cons.prems(1) by simp
    show ?thesis
      using Suc Cons.IH [OF d j] by (simp add: initiateAnimations_Cons Let_def del: initiateAnimations.simps(2))
  qed
qed


lemma handleRace_prepare_eq:
  assumes "carInstances g \<noteq> []"
  shows "handleRace_prepare g engines =
     (Inr (map (\<lambda>c. fst (getReadyForRace g c (engines c))) (map fst (carInstances g))),
      snd (preparations (hideMessage (resetWinnerData g)) (map fst (carInstances g)) engines))"
proof -
  let ?g1 = "hideMessage (resetWinnerData g)"
  have "carInstances ?g1 = carInstances g"
    by (simp add: hideMessage_def resetWinnerData_def)
  then have "fst (preparations ?g1 (map fst (carInstances g)) engines) =
      map (\<lambda>c. fst (getReadyForRace g c (engines c))) (map fst (carInstances g))"
    by (rule preparations_results)
  then show ?thesis
    using assms by (simp add: handleRace_prepare_def Let_def case_prod_beta)
qed

lemma handleRace_prepare_callbacks:
  "set (frameCallbacks (snd (handleRace_prepare g engines))) \<subseteq> set (frameCallbacks g)"
proof (cases "carInstances g = []")
  case True
  then show ?thesis by (simp add: handleRace_prepare_def)
next
  case False
  have "frameCallbacks (hideMessage (resetWinnerData g)) = frameCallbacks g"
    by (simp add: hideMessage_def resetWinnerData_def)
  then show ?thesis
    using preparations_frame [of "hideMessage (resetWinnerData g)" "map fst (carInstances g)" engines]
    by (simp add: handleRace_prepare_eq [OF False])
qed

lemma handleRace_settled_eq:
  "handleRace_settled g results =
     (snd (initiateAnimations g (fulfilled results)))
       \<lparr>spawned := spawned g @ map CheckDriveStatus (map carId (fulfilled results))\<rparr>"
  using initiateAnimations_frame [of g "fulfilled results"]
    initiateAnimations_started [of g "fulfilled results"]
  by (simp add: handleRace_settled_def Let_def case_prod_beta)

text \<open>
  Claim C5. A race over the cars on the page, where \<open>engines c\<close> is what the engine start
  of car \<open>c\<close> settled to and \<open>gl\<close> is the state of the page when all of them have settled.
  The preparation of each car yields what \<^verbatim>\<open>getReadyForRace\<close> yields for that car and its own
  engine answer alone; for a car whose start failed that is the error \<open>PrepareFailed\<close>.
  The race does not throw. Exactly the cars whose start succeeded get a health poll and one
  new frame each, whose closure is built from that car's own preparation and which is
  recorded in \<open>activeAnimations\<close> under the car; no frame is requested for a failed car and
  its registry entry is not touched. With nothing happening in between, the frames pending
  besides the new ones were pending before the race.
\<close>

theorem race_isolates_engine_failures:
  assumes "carInstances g \<noteq> []" and "distinct (map fst (carInstances g))"
  shows "let ids = map fst (carInstances g);
             results = map (\<lambda>c. fst (getReadyForRace g c (engines c))) ids;
             started = filter (\<lambda>c. \<not> isl (engines c)) ids;
             closure = (\<lambda>c. CarAnimationOptions.extend
                          ((projr (fst (getReadyForRace g c (engines c))))
                             \<lparr>onFinish := Some HandleCarFinish\<rparr>) \<lparr>startTime = None\<rparr>);
             g' = handleRace_settled gl results
         in fst (handleRace_prepare g engines) = Inr results \<and>
            (\<forall>c \<in> set ids. isl (engines c) \<longrightarrow>
               fst (getReadyForRace g c (engines c)) = Inl (PrepareFailed c)) \<and>
            spawned g' = spawned gl @ map CheckDriveStatus started \<and>
            frameHandle g' = frameHandle gl + length started \<and>
            frameCallbacks g' =
              frameCallbacks gl @
                zip [Suc (frameHandle gl) ..< Suc (frameHandle gl + length started)]
                    (map closure started) \<and>
            (\<forall>c \<in> set started. carId (closure c) = c) \<and>
            (\<forall>i < length started.
               activeAnimations g' (started ! i) = Some (Suc (frameHandle gl + i))) \<and>
            (\<forall>c. c \<notin> set started \<longrightarrow> activeAnimations g' c = activeAnimations gl c) \<and>
            handleRace g engines =
              (Inr (), handleRace_settled (snd (handleRace_prepare g engines)) results) \<and>
            set (frameCallbacks (snd (handleRace_prepare g engines))) \<subseteq> set (frameCallbacks g)"
proof -
  let ?ids = "map fst (carInstances g)"
  let ?f = "\<lambda>c. fst (getReadyForRace g c (engines c))"
  let ?started = "filter (\<lambda>c. \<not> isl (engines c)) ?ids"
  let ?opt = "\<lambda>c. (projr (?f c))\<lparr>onFinish := Some HandleCarFinish\<rparr>"
  let ?closure = "\<lambda>c. CarAnimationOptions.extend (?opt c) \<lparr>startTime = None\<rparr>"
  let ?ready = "fulfilled (map ?f ?ids)"
  let ?g' = "handleRace_settled gl (map ?f ?ids)"
  have known: "\<And>c. c \<in> set ?ids \<Longrightarrow> c \<in> fst ` set (carInstances g)"
    by simp
  have flt: "filter (\<lambda>c. \<not> isl (?f c)) ?ids = ?started"
    by (rule filter_cong [OF refl]) (use getReadyForRace_known known in blast)
  have ready: "?ready = map ?opt ?started"
    unfolding fulfilled_map flt ..
  have ids_ok: "\<And>c. c \<in> set ?started \<Longrightarrow> carId (?opt c) = c"
    using getReadyForRace_known known by auto
  have "map (\<lambda>c. carId (?opt c)) ?started = ?started"
    by (rule map_idI) (use ids_ok in blast)
  then have ready_ids: "map carId ?ready = ?started"
    unfolding ready by (simp add: comp_def)
  have len: "length ?ready = length ?started"
    unfolding ready by simp
  have c1: "fst (handleRace_prepare g engines) = Inr (map ?f ?ids)"
    by (simp add: handleRace_prepare_eq [OF assms(1)])
  have c2: "\<forall>c \<in> set ?ids. isl (engines c) \<longrightarrow> ?f c = Inl (PrepareFailed c)"
    using getReadyForRace_known known by blast
  have c3: "spawned ?g' = spawned gl @ map CheckDriveStatus ?started"
    unfolding handleRace_settled_eq ready_ids by simp
  have c4: "frameHandle ?g' = frameHandle gl + length ?started"
    using initiateAnimations_frame [of gl ?ready] len by (simp add: handleRace_settled_eq)
  have c5: "frameCallbacks ?g' =
      frameCallbacks gl @ zip [Suc (frameHandle gl) ..< Suc (frameHandle gl + length ?started)]
                              (map ?closure ?started)"
  proof -
    have fc: "frameCallbacks ?g' = frameCallbacks (snd (initiateAnimations gl ?ready))"
      by (simp add: handleRace_settled_eq)
    have m: "map (\<lambda>opt. CarAnimationOptions.extend opt \<lparr>startTime = None\<rparr>) ?ready =
               map ?closure ?started"
      unfolding ready by (simp add: comp_def)
    show ?thesis
      by (simp only: fc initiateAnimations_callbacks m len)
  qed
  have c6: "\<forall>c \<in> set ?started. carId (?closure c) = c"
    using ids_ok by (simp add: CarAnimationOptions.extend_def)
  have dist: "distinct (map carId ?ready)"
    unfolding ready_ids using assms(2) by (rule distinct_filter)
  have c7: "\<forall>i < length ?started.
      activeAnimations ?g' (?started ! i) = Some (Suc (frameHandle gl + i))"
  proof (intro allI impI)
    fix i assume i: "i < length ?started"
    then have i': "i < length ?ready" using len by simp
    have "carId (?ready ! i) = map carId ?ready ! i"
      using i' by (simp only: nth_map)
    then have "carId (?ready ! i) = ?started ! i"
      by (simp only: ready_ids)
    then show "activeAnimations ?g' (?started ! i) = Some (Suc (frameHandle gl + i))"
      using initiateAnimations_registry [OF dist i', of gl] by (simp add: handleRace_settled_eq)
  qed
  have c8: "\<forall>c. c \<notin> set ?started \<longrightarrow> activeAnimations ?g' c = activeAnimations gl c"
  proof (intro allI impI)
    fix c assume "c \<notin> set ?started"
    moreover have "carId ` set ?ready = set ?started"
      unfolding ready_ids [symmetric] by (simp only: set_map)
    ultimately have "c \<notin> carId ` set ?ready"
      by simp
    then show "activeAnimations ?g' c = activeAnimations gl c"
      by (simp add: handleRace_settled_eq initiateAnimations_other)
  qed
  have c9: "handleRace g engines =
      (Inr (), handleRace_settled (snd (handleRace_prepare g engines)) (map ?f ?ids))"
    by (simp add: handleRace_def handleRace_prepare_eq [OF assms(1)])
  note c10 = handleRace_prepare_callbacks [of g engines]
  show ?thesis
    unfolding Let_def by (intro conjI c1 c2 c3 c4 c5 c6 c7 c8 c9 c10)
qed

lemma sample_engines_values:
  "sample_engines c =
     (if c = 1 then Inl (StartEngineFailed 1) else Inr \<lparr>velocity = 100, distance = 500000\<rparr>)"
  by (simp add: sample_engines_def startEngine_def flaky_engine_def ok_def)

theorem race_isolates_engine_failures_witness:
  "carInstances sample_garage \<noteq> [] \<and> distinct (map fst (carInstances sample_garage)) \<and>
   fst (handleRace sample_garage sample_engines) = Inr () \<and>
   fst (getReadyForRace sample_garage 1 (sample_engines 1)) = Inl (PrepareFailed 1) \<and>
   spawned (handleRace_settled sample_garage
              (map (\<lambda>c. fst (getReadyForRace sample_garage c (sample_engines c))) [1, 2])) =
     [CheckDriveStatus 2] \<and>
   frameHandle (handleRace_settled sample_garage
              (map (\<lambda>c. fst (getReadyForRace sample_garage c (sample_engines c))) [1, 2])) = 1 \<and>
   activeAnimations (handleRace_settled sample_garage
              (map (\<lambda>c. fst (getReadyForRace sample_garage c (sample_engines c))) [1, 2])) 2 = Some 1 \<and>
   activeAnimations (handleRace_settled sample_garage
              (map (\<lambda>c. fst (getReadyForRace sample_garage c (sample_engines c))) [1, 2])) 1 = None"
proof -
  let ?g' = "handleRace_settled sample_garage
              (map (\<lambda>c. fst (getReadyForRace sample_garage c (sample_engines c))) [1, 2])"
  have a: "carInstances sample_garage \<noteq> []"
    by (simp add: sample_garage_def)
  have b: "distinct (map fst (carInstances sample_garage))"
    by (simp add: sample_garage_def)
  have ids: "map fst (carInstances sample_garage) = [1, 2]"
    by (simp add: sample_garage_def)
  have st: "filter (\<lambda>c. \<not> isl (sample_engines c)) [1, 2] = [2]"
    by (simp add: sample_engines_values)
  note i = race_isolates_engine_failures [OF a b, of sample_engines sample_garage,
      unfolded Let_def ids st]
  from i have "handleRace sample_garage sample_engines =
      (Inr (), handleRace_settled (snd (handleRace_prepare sample_garage sample_engines))
         (map (\<lambda>c. fst (getReadyForRace sample_garage c (sample_engines c))) [1, 2]))"
    by (elim conjE)
  then have c1: "fst (handleRace sample_garage sample_engines) = Inr ()"
    by simp
  have "isl (sample_engines 1)"
    by (simp add: sample_engines_values)
  moreover from i have "\<forall>c \<in> set [1, 2]. isl (sample_engines c) \<longrightarrow>
      fst (getReadyForRace sample_garage c (sample_engines c)) = Inl (PrepareFailed c)"
    by (elim conjE)
  ultimately have c2:
    "fst (getReadyForRace sample_garage 1 (sample_engines 1)) = Inl (PrepareFailed 1)"
    by simp
  from i have "spawned ?g' = spawned sample_garage @ map CheckDriveStatus [2]"
    by (elim conjE)
  then have c3: "spawned ?g' = [CheckDriveStatus 2]"
    by (simp add: sample_garage_def)
  from i have "frameHandle ?g' = frameHandle sample_garage + length [2::nat]"
    by (elim conjE)
  then have c4: "frameHandle ?g' = 1"
    by (simp add: sample_garage_def)
  from i have "\<forall>i < length [2::nat].
      activeAnimations ?g' ([2] ! i) = Some (Suc (frameHandle sample_garage + i))"
    by blast
  then have c5: "activeAnimations ?g' 2 = Some 1"
    by (simp add: sample_garage_def)
  from i have "\<forall>c. c \<notin> set [2::nat] \<longrightarrow>
      activeAnimations ?g' c = activeAnimations sample_garage c"
    by (elim conjE)
  then have "activeAnimations ?g' 1 = activeAnimations sample_garage 1"
    by simp
  then have c6: "activeAnimations ?g' 1 = None"
    by (simp add: sample_garage_def)
  show ?thesis
    by (intro conjI a b c1 c2 c3 c4 c5 c6)
qed

subsection \<open>stopExistingAnimation\<close>

lemma stopExistingAnimation_stale:
  assumes "activeAnimations g c = Some h" and "h \<noteq> 0" and "h \<noteq> c"
  shows "activeAnimations (stopExistingAnimation g c) c = Some h \<and>
         activeAnimations (stopExistingAnimation g c) h = None \<and>
         map_of (frameCallbacks (stopExistingAnimation g c)) h = None"
  using assms
  by (simp add: stopExistingAnimation_def cancelAnimationFrame_def Let_def map_of_cancelled)

lemmas race_eval =
  handleRace_def handleRace_prepare_def handleRace_settled_def sample_garage_def stopExistingAnimation_def cancelAnimationFrame_def
  getReadyForRace_def calculateAnimationDetails_def animationCar_def requestAnimationFrame_def
  hideMessage_def resetWinnerData_def CarAnimationOptions.extend_def Let_def

text \<open>
  Claim C4 does not hold of \<^verbatim>\<open>stopExistingAnimation\<close>, which deletes the key
  \<open>existingAnimationID\<close> where \<^verbatim>\<open>cleanupAnimation\<close> deletes the car id. With car 1 running on
  frame 3, stopping it cancels the frame and leaves the entry of car 1 in place; a race in
  which no engine starts ends with that entry and no frame pending. With car 1 on frame 2
  and car 2 on frame 1, stopping car 1 deletes the entry of car 2: the next frame of car 2
  finds no entry and requests no further frame, so car 2 stops short of the finish without
  a completion; and a race whose start requests settle before that frame does not cancel
  it, leaving car 2 with two pending frames.
\<close>

theorem stopExistingAnimation_deletes_frame_key:
  "activeAnimations (stopExistingAnimation one_car_running 1) 1 = Some 3 \<and>
   frameCallbacks (stopExistingAnimation one_car_running 1) = [] \<and>
   activeAnimations (cleanupAnimation one_car_running 1) 1 = None \<and>
   activeAnimations (snd (handleRace one_car_running no_engine_starts)) 1 = Some 3 \<and>
   frameCallbacks (snd (handleRace one_car_running no_engine_starts)) = [] \<and>
   activeAnimations (stopExistingAnimation two_cars_started 1) 2 = None \<and>
   map fst (frameCallbacks (stopExistingAnimation two_cars_started 1)) = [1] \<and>
   map fst (filter (\<lambda>e. carId (snd e) = 2)
              (frameCallbacks (snd (handleRace two_cars_started sample_engines)))) = [1, 3] \<and>
   frameCallbacks (snd (runFrame (stopExistingAnimation two_cars_started 1) 1 16)) = [] \<and>
   currentWinnerId (snd (runFrame (stopExistingAnimation two_cars_started 1) 1 16)) = None"
proof -
  have a: "activeAnimations (stopExistingAnimation one_car_running 1) 1 = Some 3 \<and>
           frameCallbacks (stopExistingAnimation one_car_running 1) = []"
    by (simp add: one_car_running_def race_eval)
  have b: "activeAnimations (cleanupAnimation one_car_running 1) 1 = None"
    by (simp add: one_car_running_def cleanupAnimation_def race_eval)
  have c: "activeAnimations (snd (handleRace one_car_running no_engine_starts)) 1 = Some 3 \<and>
           frameCallbacks (snd (handleRace one_car_running no_engine_starts)) = []"
    by (simp add: one_car_running_def no_engine_starts_def race_eval)
  have d: "activeAnimations (stopExistingAnimation two_cars_started 1) 2 = None \<and>
           map fst (frameCallbacks (stopExistingAnimation two_cars_started 1)) = [1]"
    by (simp add: two_cars_started_def race_eval)
  have e: "map fst (filter (\<lambda>e. carId (snd e) = 2)
              (frameCallbacks (snd (handleRace two_cars_started sample_engines)))) = [1, 3]"
    by (simp add: two_cars_started_def sample_engines_values race_eval)
  have f: "frameCallbacks (snd (runFrame (stopExistingAnimation two_cars_started 1) 1 16)) = [] \<and>
           currentWinnerId (snd (runFrame (stopExistingAnimation two_cars_started 1) 1 16)) = None"
    by (simp add: two_cars_started_def runFrame_def step_def progressAt_def timeElapsedAt_def
          race_eval)
  from a b c d e f show ?thesis by blast
qed


end
